theory Spec2Isabelle
  imports Main "HOL-Library.Sublist"
begin

section \<open>The inbox route \<^verbatim>\<open>src/app/api/emails/route.ts\<close>\<close>

text \<open>
  The route exports one asynchronous handler, \<^verbatim>\<open>GET(request)\<close>. It resolves the
  session, lists message references at the mail provider, fetches and analyses every
  message in a concurrent fan-out, and answers with a JSON envelope; whatever is thrown
  inside its \<^verbatim>\<open>try\<close> block is classified by the \<^verbatim>\<open>catch\<close> block.

  The collaborators (\<^verbatim>\<open>getServerSession\<close>, \<^verbatim>\<open>fetchGmailMessages\<close>,
  \<^verbatim>\<open>getGmailMessage\<close>, \<^verbatim>\<open>analyzeEmail\<close>) are imported from other modules; the handler
  is modelled over an environment that fixes what each of them returns or throws.
  Writing to the console is left out: no value the handler computes depends on it.
\<close>

subsection \<open>Strings\<close>

text \<open>
  A JavaScript string is a sequence of code units; the model covers strings whose code
  units are below 256, one \<^typ>\<open>char\<close> each.
  \<^verbatim>\<open>s.includes(t)\<close> holds when \<open>t\<close> occurs in \<open>s\<close> as a contiguous run.
\<close>

fun str_includes :: "string \<Rightarrow> string \<Rightarrow> bool" where
  "str_includes [] t = (t = [])"
| "str_includes (c # s) t = (prefix t (c # s) \<or> str_includes s t)"

subsection \<open>Numbers: \<^verbatim>\<open>Number.parseInt\<close> and \<^verbatim>\<open>Math.min\<close>\<close>

text \<open>
  \<^verbatim>\<open>Number.parseInt(string)\<close> with no radix: leading white space is dropped, then an
  optional sign, then an optional \<^verbatim>\<open>0x\<close>/\<^verbatim>\<open>0X\<close> (which selects radix 16, else 10);
  the longest run of digits of the radix is read, and the result is \<^verbatim>\<open>NaN\<close> when that
  run is empty. Otherwise the result is the double nearest to the integer that was read,
  with the sign.

  Of the doubles the model keeps what the handler can tell apart:
  \<^item> \<open>Num n\<close>: the integer \<open>n\<close>, of magnitude at most \<open>2^53\<close>, which a double holds
    exactly (\<open>Num 0\<close> is the positive zero);
  \<^item> \<open>NegZero\<close>: the negative zero, which \<^verbatim>\<open>parseInt("-0")\<close> gives;
  \<^item> \<open>Large\<close>, \<open>NegLarge\<close>: a double of magnitude at least \<open>2^53\<close>, possibly infinite, got
    by rounding an integer beyond \<open>2^53\<close>; only its sign is kept.
\<close>

datatype js_number = NaN | Num int | NegZero | Large | NegLarge

definition to_number :: "int \<Rightarrow> int \<Rightarrow> js_number" where
  "to_number sign mathInt =
     (if mathInt = 0 then (if sign < 0 then NegZero else Num 0)
      else if mathInt \<le> 2 ^ 53 then Num (sign * mathInt)
      else if sign < 0 then NegLarge else Large)"

definition is_white_space :: "char \<Rightarrow> bool" where
  "is_white_space c \<longleftrightarrow>
     (of_char c :: nat) \<in> {0x09, 0x0A, 0x0B, 0x0C, 0x0D, 0x20, 0xA0}"

definition digit_value :: "char \<Rightarrow> nat option" where
  "digit_value c =
     (let n = (of_char c :: nat) in
      if 48 \<le> n \<and> n \<le> 57 then Some (n - 48)
      else if 97 \<le> n \<and> n \<le> 122 then Some (n - 87)
      else if 65 \<le> n \<and> n \<le> 90 then Some (n - 55)
      else None)"

definition radix_digit :: "nat \<Rightarrow> char \<Rightarrow> bool" where
  "radix_digit R c = (case digit_value c of None \<Rightarrow> False | Some d \<Rightarrow> d < R)"

definition digits_value :: "nat \<Rightarrow> string \<Rightarrow> int" where
  "digits_value R Z =
     foldl (\<lambda>acc c. acc * int R + int (case digit_value c of None \<Rightarrow> 0 | Some d \<Rightarrow> d)) 0 Z"

definition parse_digits :: "int \<Rightarrow> nat \<Rightarrow> string \<Rightarrow> js_number" where
  "parse_digits sign R S =
     (let Z = takeWhile (radix_digit R) S in
      if Z = [] then NaN else to_number sign (digits_value R Z))"

fun strip_prefix :: "int \<Rightarrow> string \<Rightarrow> js_number" where
  "strip_prefix sign (c # d # S) =
     (if c = CHR ''0'' \<and> (d = CHR ''x'' \<or> d = CHR ''X'')
      then parse_digits sign 16 S
      else parse_digits sign 10 (c # d # S))"
| "strip_prefix sign S = parse_digits sign 10 S"

definition parseInt :: "string \<Rightarrow> js_number" where
  "parseInt string =
     (case dropWhile is_white_space string of
        [] \<Rightarrow> NaN
      | c # S \<Rightarrow>
          if c = CHR ''-'' then strip_prefix (- 1) S
          else if c = CHR ''+'' then strip_prefix 1 S
          else strip_prefix 1 (c # S))"

text \<open>
  \<^verbatim>\<open>Math.min(x, y)\<close>: \<^verbatim>\<open>NaN\<close> when an argument is \<^verbatim>\<open>NaN\<close>; the negative zero is below
  the positive one.
\<close>

fun Math_min :: "js_number \<Rightarrow> js_number \<Rightarrow> js_number" where
  "Math_min NaN y = NaN"
| "Math_min x NaN = NaN"
| "Math_min NegLarge y = NegLarge"
| "Math_min x NegLarge = NegLarge"
| "Math_min Large y = y"
| "Math_min x Large = x"
| "Math_min NegZero NegZero = NegZero"
| "Math_min NegZero (Num b) = (if b < 0 then Num b else NegZero)"
| "Math_min (Num a) NegZero = (if a < 0 then Num a else NegZero)"
| "Math_min (Num a) (Num b) = Num (min a b)"

subsection \<open>The request\<close>

text \<open>
  Of the request the handler reads \<^verbatim>\<open>request.nextUrl.searchParams\<close> only: the list
  of name/value pairs of the query string; \<^verbatim>\<open>get(name)\<close> is the value of the first pair
  with that name, or \<^verbatim>\<open>null\<close>.
\<close>

record request =
  searchParams :: "(string \<times> string) list"

definition searchParams_get :: "request \<Rightarrow> string \<Rightarrow> string option" where
  "searchParams_get request name = map_of (searchParams request) name"

text \<open>
  Line 38:
  \<^verbatim>\<open>Math.min(Number.parseInt(searchParams.get("maxResults") || "10"), 20)\<close>.
  The \<^verbatim>\<open>||\<close> replaces \<^verbatim>\<open>null\<close> and the empty string, the two falsy values a
  \<^verbatim>\<open>string | null\<close> has.
\<close>

definition maxResults :: "request \<Rightarrow> js_number" where
  "maxResults request =
     Math_min
       (parseInt (case searchParams_get request ''maxResults'' of
                    None \<Rightarrow> ''10''
                  | Some v \<Rightarrow> if v = [] then ''10'' else v))
       (Num 20)"

subsection \<open>Sessions, messages, thrown values\<close>

text \<open>
  An optional property of the session is \<open>None\<close> when it is \<^verbatim>\<open>undefined\<close>.
\<close>

record session =
  user_email :: "string option"
  accessToken :: "string option"
  refreshToken :: "string option"
  expiresAt :: "nat option"

record message =
  msg_id :: string

record messages_response =
  messages :: "message list option"

text \<open>
  What a \<^verbatim>\<open>throw\<close> carries: an instance of \<^verbatim>\<open>Error\<close> with its \<^verbatim>\<open>message\<close> text, or
  any other value (of a type the model leaves open).
\<close>

datatype 'v thrown = Error string | NonError 'v

subsection \<open>Responses\<close>

text \<open>
  A JSON body is the list of its properties in the order of the object literal.
  \<^verbatim>\<open>NextResponse.json(body)\<close> answers with status 200 unless a status is given.
\<close>

datatype 'a json = JString string | JNumber nat | JArray "'a list"

record 'a response =
  status :: nat
  body :: "(string \<times> 'a json) list"

definition NextResponse_json :: "(string \<times> 'a json) list \<Rightarrow> nat option \<Rightarrow> 'a response" where
  "NextResponse_json b init =
     \<lparr>status = (case init of None \<Rightarrow> 200 | Some st \<Rightarrow> st), body = b\<rparr>"

subsection \<open>The environment of one request\<close>

text \<open>
  \<^item> \<open>getServerSession\<close>: what \<^verbatim>\<open>await getServerSession(authOptions)\<close> gives: a thrown
    value, \<^verbatim>\<open>null\<close> (\<open>None\<close>) or a session;
  \<^item> \<open>fetchGmailMessages\<close>, \<open>getGmailMessage\<close>: the provider client, by arguments;
  \<^item> \<open>analyzeEmail\<close>: the analyzer; \<open>Inr None\<close> is a \<^verbatim>\<open>null\<close> or \<^verbatim>\<open>undefined\<close> result;
  \<^item> \<open>String_of\<close>: \<^verbatim>\<open>String(v)\<close> for a thrown value that is not an \<^verbatim>\<open>Error\<close>; \<open>None\<close>
    when the conversion itself throws;
  \<^item> \<open>latency\<close>: the time at which the promise of the message at a given position of
    the listing settles;
  \<^item> \<open>now\<close>: \<^verbatim>\<open>new Date().toISOString()\<close>.
  Each collaborator is a function of its arguments: what a call gives does not depend on
  the calls made before it.
\<close>

record ('v, 'd, 'a) env =
  getServerSession :: "'v thrown + session option"
  fetchGmailMessages :: "string \<Rightarrow> js_number \<Rightarrow> 'v thrown + messages_response"
  getGmailMessage :: "string \<Rightarrow> string \<Rightarrow> 'v thrown + 'd"
  analyzeEmail :: "'d \<Rightarrow> 'v thrown + 'a option"
  String_of :: "'v \<Rightarrow> string option"
  latency :: "nat \<Rightarrow> nat"
  now :: string

subsection \<open>The fan-out (lines 65 to 79)\<close>

text \<open>
  The \<^verbatim>\<open>try\<close> body of the callback: fetch the detail, analyse it, log the subject and
  the trust score, return the analysis. Reading \<^verbatim>\<open>analyzed.subject\<close> for the log line
  throws a \<^verbatim>\<open>TypeError\<close> when the analyzer returned \<^verbatim>\<open>null\<close> or \<^verbatim>\<open>undefined\<close> (its
  text is only logged).
\<close>

definition process_email ::
  "('v, 'd, 'a) env \<Rightarrow> string \<Rightarrow> message \<Rightarrow> 'v thrown + 'a" where
  "process_email env token msg =
     (case getGmailMessage env token (msg_id msg) of
        Inl e \<Rightarrow> Inl e
      | Inr messageDetail \<Rightarrow>
          (case analyzeEmail env messageDetail of
             Inl e \<Rightarrow> Inl e
           | Inr None \<Rightarrow> Inl (Error ''Cannot read properties of null (reading 'subject')'')
           | Inr (Some analyzed) \<Rightarrow> Inr analyzed))"

text \<open>The callback with its \<^verbatim>\<open>catch\<close>: \<^verbatim>\<open>null\<close> (\<open>None\<close>) for whatever was thrown.\<close>

definition email_promise ::
  "('v, 'd, 'a) env \<Rightarrow> string \<Rightarrow> message \<Rightarrow> 'a option" where
  "email_promise env token msg =
     (case process_email env token msg of Inl error \<Rightarrow> None | Inr analyzed \<Rightarrow> Some analyzed)"

text \<open>
  \<^verbatim>\<open>Promise.all\<close>: every promise of the fan-out fulfils (the callback catches what is
  thrown), in the order of the settling times; a promise that settles stores its value
  in the slot of its own index, and the result is the array of slots once each is
  filled. \<open>None\<close>: some slot stays empty, the joined promise stays pending.
\<close>

definition settle_order :: "(nat \<Rightarrow> nat) \<Rightarrow> nat \<Rightarrow> nat list" where
  "settle_order lat n = sort_key lat [0..<n]"

definition resolve_element :: "'x list \<Rightarrow> nat \<Rightarrow> 'x option list \<Rightarrow> 'x option list" where
  "resolve_element promises i values =
     (if i < length promises then values[i := Some (promises ! i)] else values)"

definition Promise_all :: "nat list \<Rightarrow> 'x list \<Rightarrow> 'x list option" where
  "Promise_all order promises =
     those (fold (resolve_element promises) order (replicate (length promises) None))"

subsection \<open>The handler\<close>

text \<open>Lines 84 to 88, after the fan-out: drop the \<^verbatim>\<open>null\<close> results, answer.\<close>

definition success_envelope :: "('v, 'd, 'a) env \<Rightarrow> 'a option list \<Rightarrow> 'a response" where
  "success_envelope env results =
     (let analyzedEmails = filter (\<lambda>email. email \<noteq> None) results in
      NextResponse_json
        [(''emails'', JArray (map the analyzedEmails)),
         (''totalFetched'', JNumber (length analyzedEmails)),
         (''timestamp'', JString (now env))]
        None)"

text \<open>
  The \<^verbatim>\<open>try\<close> block (lines 12 to 88). \<open>Inl\<close>: a value is thrown; \<open>Inr\<close>: a response is
  returned; \<open>None\<close>: the block does not complete.
\<close>

definition try_block ::
  "('v, 'd, 'a) env \<Rightarrow> request \<Rightarrow> ('v thrown + 'a response) option" where
  "try_block env request =
     (case getServerSession env of
        Inl e \<Rightarrow> Some (Inl e)
      | Inr None \<Rightarrow>
          Some (Inr (NextResponse_json [(''error'', JString ''Not authenticated'')] (Some 401)))
      | Inr (Some session) \<Rightarrow>
          (case accessToken session of
             None \<Rightarrow>
               Some (Inr (NextResponse_json
                 [(''error'', JString ''No access token available. Please sign in again.'')]
                 (Some 401)))
           | Some token \<Rightarrow>
               if token = [] then
                 Some (Inr (NextResponse_json
                   [(''error'', JString ''No access token available. Please sign in again.'')]
                   (Some 401)))
               else
                 (case fetchGmailMessages env token (maxResults request) of
                    Inl gmailError \<Rightarrow> Some (Inl gmailError)
                  | Inr messagesResponse \<Rightarrow>
                      (case messages messagesResponse of
                         None \<Rightarrow> Some (Inr (NextResponse_json
                           [(''emails'', JArray []),
                            (''message'', JString ''No emails found in your inbox.''),
                            (''totalFetched'', JNumber 0),
                            (''timestamp'', JString (now env))] None))
                       | Some msgs \<Rightarrow>
                           if length msgs = 0 then Some (Inr (NextResponse_json
                             [(''emails'', JArray []),
                              (''message'', JString ''No emails found in your inbox.''),
                              (''totalFetched'', JNumber 0),
                              (''timestamp'', JString (now env))] None))
                           else
                             (case Promise_all (settle_order (latency env) (length msgs))
                                     (map (email_promise env token) msgs) of
                                None \<Rightarrow> None
                              | Some results \<Rightarrow> Some (Inr (success_envelope env results)))))))"

text \<open>
  The \<^verbatim>\<open>catch\<close> block (lines 89 to 192). \<open>None\<close>: \<^verbatim>\<open>String(error)\<close> throws, so the
  handler's promise rejects.
\<close>

definition unknown_error :: "('v, 'd, 'a) env \<Rightarrow> 'v thrown \<Rightarrow> 'a response option" where
  "unknown_error env error =
     (case (case error of Error msg \<Rightarrow> Some msg | NonError v \<Rightarrow> String_of env v) of
        None \<Rightarrow> None
      | Some details \<Rightarrow> Some (NextResponse_json
          [(''error'', JString ''Failed to fetch emails from Gmail API''),
           (''code'', JString ''UNKNOWN_ERROR''),
           (''details'', JString details),
           (''timestamp'', JString (now env))]
          (Some 500)))"

definition catch_block :: "('v, 'd, 'a) env \<Rightarrow> 'v thrown \<Rightarrow> 'a response option" where
  "catch_block env error =
     (case error of
        NonError v \<Rightarrow> unknown_error env error
      | Error msg \<Rightarrow>
          if str_includes msg ''401'' then Some (NextResponse_json
            [(''error'', JString ''Gmail access token expired. Please sign out and sign in again.''),
             (''code'', JString ''TOKEN_EXPIRED''),
             (''details'', JString ''Your authentication token is no longer valid.''),
             (''timestamp'', JString (now env))]
            (Some 401))
          else if str_includes msg ''403'' then Some (NextResponse_json
            [(''error'', JString ''Gmail API access denied. Make sure you granted permission to read your emails.''),
             (''code'', JString ''PERMISSION_DENIED''),
             (''details'', JString ''The access token doesn't have Gmail permission. Please sign out and sign in again, then allow Gmail access.''),
             (''suggestion'', JString ''Check that you clicked 'Allow' for Gmail permissions during login.''),
             (''troubleshooting'', JString ''1. Visit https://myaccount.google.com/permissions 2. Find MailGuardian 3. Click Remove Access 4. Sign in again''),
             (''timestamp'', JString (now env))]
            (Some 403))
          else if str_includes msg ''429'' then Some (NextResponse_json
            [(''error'', JString ''Gmail API rate limit exceeded. Please try again in a few minutes.''),
             (''code'', JString ''RATE_LIMITED''),
             (''timestamp'', JString (now env))]
            (Some 429))
          else if str_includes msg ''400'' then Some (NextResponse_json
            [(''error'', JString ''Invalid request to Gmail API.''),
             (''code'', JString ''BAD_REQUEST''),
             (''details'', JString msg),
             (''timestamp'', JString (now env))]
            (Some 400))
          else if str_includes msg ''500'' \<or> str_includes msg ''5'' then Some (NextResponse_json
            [(''error'', JString ''Gmail API server error. Please try again in a few minutes.''),
             (''code'', JString ''SERVER_ERROR''),
             (''timestamp'', JString (now env))]
            (Some 503))
          else unknown_error env error)"

text \<open>\<open>None\<close>: the handler gives no response (its promise rejects or stays pending).\<close>

definition GET :: "('v, 'd, 'a) env \<Rightarrow> request \<Rightarrow> 'a response option" where
  "GET env request =
     (case try_block env request of
        None \<Rightarrow> None
      | Some (Inr response) \<Rightarrow> Some response
      | Some (Inl error) \<Rightarrow> catch_block env error)"

subsection \<open>What the claims count\<close>

text \<open>
  The number of messages of a listing whose fetch-and-analyze operation (the \<^verbatim>\<open>try\<close>
  body of the callback) throws.
\<close>

definition thrown_count :: "('v, 'd, 'a) env \<Rightarrow> string \<Rightarrow> message list \<Rightarrow> nat" where
  "thrown_count env token msgs =
     length (filter (\<lambda>msg. isl (process_email env token msg)) msgs)"

text \<open>
  A request for \<open>n\<close> results carries the decimal numeral of the natural number \<open>n\<close>.
\<close>

fun decimal :: "nat \<Rightarrow> string" where
  "decimal n =
     (if n < 10 then [char_of (48 + n)]
      else decimal (n div 10) @ [char_of (48 + n mod 10)])"

declare decimal.simps [simp del]

subsection \<open>A concrete inbox\<close>

text \<open>
  A session with a token; a listing of three references, of which the second cannot be
  fetched; an analyzer that returns the subject line; promises that settle in the reverse
  of the listing order. Thrown values that are not errors are strings.
\<close>

definition inbox_session :: session where
  "inbox_session =
     \<lparr>user_email = Some ''user@example.com'', accessToken = Some ''ya29.a0'',
      refreshToken = None, expiresAt = None\<rparr>"

definition inbox_messages :: "message list" where
  "inbox_messages = [\<lparr>msg_id = ''m1''\<rparr>, \<lparr>msg_id = ''m2''\<rparr>, \<lparr>msg_id = ''m3''\<rparr>]"

definition inbox_env :: "(string, string, string) env" where
  "inbox_env =
     \<lparr>getServerSession = Inr (Some inbox_session),
      fetchGmailMessages = (\<lambda>token limit. Inr \<lparr>messages = Some inbox_messages\<rparr>),
      getGmailMessage = (\<lambda>token ident.
         if ident = ''m2'' then Inl (Error ''Gmail API error: 404'') else Inr ident),
      analyzeEmail = (\<lambda>messageDetail. Inr (Some (''Re: '' @ messageDetail))),
      String_of = Some,
      latency = (\<lambda>i. 10 - i),
      now = ''2024-01-01T00:00:00.000Z''\<rparr>"

definition failing_listing :: "string thrown \<Rightarrow> (string, string, string) env" where
  "failing_listing e = inbox_env\<lparr>fetchGmailMessages := (\<lambda>token limit. Inl e)\<rparr>"

text \<open>
  A provider client that throws a value which is not an error: a string, or an object
  without a prototype (\<^verbatim>\<open>Object.create(null)\<close>), which \<^verbatim>\<open>String\<close> cannot convert: the
  conversion throws a \<^verbatim>\<open>TypeError\<close>.
\<close>

datatype thrown_value = Text string | Bare_object

fun String_conversion :: "thrown_value \<Rightarrow> string option" where
  "String_conversion (Text s) = Some s"
| "String_conversion Bare_object = None"

definition bare_throw_env :: "(thrown_value, string, string) env" where
  "bare_throw_env =
     \<lparr>getServerSession = Inr (Some inbox_session),
      fetchGmailMessages = (\<lambda>token limit. Inl (NonError Bare_object)),
      getGmailMessage = (\<lambda>token ident. Inr ident),
      analyzeEmail = (\<lambda>messageDetail. Inr (Some messageDetail)),
      String_of = String_conversion,
      latency = (\<lambda>i. i),
      now = ''2024-01-01T00:00:00.000Z''\<rparr>"

section \<open>Properties\<close>

subsection \<open>Auxiliary facts\<close>

lemma str_includes_sublist: "str_includes s t \<longleftrightarrow> sublist t s"
  by (induction s) (auto simp: sublist_Cons_right)

lemma length_fold_resolve:
  "length (fold (resolve_element ps) ord vs) = length vs"
  by (induction ord arbitrary: vs) (simp_all add: resolve_element_def)

lemma nth_fold_resolve:
  "length vs = length ps \<Longrightarrow> i < length ps \<Longrightarrow>
   fold (resolve_element ps) ord vs ! i =
     (if i \<in> set ord then Some (ps ! i) else vs ! i)"
proof (induction ord arbitrary: vs)
  case Nil
  then show ?case by simp
next
  case (Cons j ord)
  let ?v = "resolve_element ps j vs"
  have len: "length ?v = length ps"
    using Cons.prems(1) by (simp add: resolve_element_def)
  have step: "?v ! i = (if j = i then Some (ps ! i) else vs ! i)"
    using Cons.prems by (simp add: resolve_element_def)
  show ?case
    using Cons.IH [OF len Cons.prems(2)] step by auto
qed

lemma those_map_Some: "those (map Some xs) = Some xs"
  by (induction xs) simp_all

text \<open>Parsing the decimal numeral of a natural number gives that number back.\<close>

lemma radix_digit_10: "radix_digit 10 c \<longleftrightarrow> 48 \<le> (of_char c :: nat) \<and> (of_char c :: nat) \<le> 57"
  by (auto simp: radix_digit_def digit_value_def Let_def)

lemma digit_char: "d < 10 \<Longrightarrow> (of_char (char_of (48 + d)) :: nat) = 48 + d"
  by simp

lemma decimal_digits: "c \<in> set (decimal n) \<Longrightarrow> radix_digit 10 c"
proof (induction n rule: decimal.induct)
  case (1 n)
  show ?case
  proof (cases "n < 10")
    case True
    then show ?thesis using "1.prems" by (simp add: decimal.simps [of n] radix_digit_10)
  next
    case False
    have "n mod 10 < 10" by simp
    then have "radix_digit 10 (char_of (48 + n mod 10))"
      unfolding radix_digit_10 by (simp only: digit_char) simp
    then show ?thesis
      using "1.prems" "1.IH" False by (auto simp: decimal.simps [of n])
  qed
qed

lemma decimal_not_Nil: "decimal n \<noteq> []"
  by (simp add: decimal.simps [of n])

lemma digits_value_snoc:
  "digits_value R (Z @ [c]) =
     digits_value R Z * int R + int (case digit_value c of None \<Rightarrow> 0 | Some d \<Rightarrow> d)"
  by (simp add: digits_value_def)

lemma digit_value_char: "d < 10 \<Longrightarrow> digit_value (char_of (48 + d)) = Some d"
  by (simp add: digit_value_def Let_def)

lemma digits_value_decimal: "digits_value 10 (decimal n) = int n"
proof (induction n rule: decimal.induct)
  case (1 n)
  show ?case
  proof (cases "n < 10")
    case True
    then show ?thesis
      by (simp add: decimal.simps [of n] digits_value_def digit_value_char)
  next
    case False
    have "n mod 10 < 10" by simp
    then have d: "digit_value (char_of (48 + n mod 10)) = Some (n mod 10)"
      by (rule digit_value_char)
    have "digits_value 10 (decimal n) = int (n div 10) * 10 + int (n mod 10)"
      using False "1.IH" d by (simp add: decimal.simps [of n] digits_value_snoc)
    then show ?thesis by (simp add: zdiv_int zmod_int)
  qed
qed

lemma parseInt_digits:
  assumes "S \<noteq> []" and "\<And>c. c \<in> set S \<Longrightarrow> radix_digit 10 c"
  shows "parseInt S = to_number 1 (digits_value 10 S)"
proof -
  obtain c S' where S: "S = c # S'" using assms(1) by (cases S) auto
  have all: "takeWhile (radix_digit 10) S = S"
    using assms(2) by (simp add: takeWhile_eq_all_conv)
  have c: "48 \<le> (of_char c :: nat)" "(of_char c :: nat) \<le> 57"
    using assms(2) [of c] S by (simp_all add: radix_digit_10)
  have nws: "\<not> is_white_space c" using c by (auto simp: is_white_space_def)
  have nsign: "c \<noteq> CHR ''-''" "c \<noteq> CHR ''+''" using c by auto
  have body: "parse_digits 1 10 S = to_number 1 (digits_value 10 S)"
    by (simp add: parse_digits_def Let_def all assms(1))
  have "strip_prefix 1 S = parse_digits 1 10 S"
  proof (cases S')
    case Nil
    then show ?thesis using S by simp
  next
    case (Cons d S'')
    have "radix_digit 10 d" using assms(2) [of d] S Cons by simp
    then have "d \<noteq> CHR ''x''" "d \<noteq> CHR ''X''"
      by (auto simp: radix_digit_10)
    then show ?thesis using S Cons by simp
  qed
  then show ?thesis
    using S nws nsign body by (simp add: parseInt_def)
qed

lemma parseInt_decimal: "parseInt (decimal n) = to_number 1 (int n)"
  using parseInt_digits [of "decimal n"] decimal_digits [of _ n] decimal_not_Nil [of n]
  by (simp add: digits_value_decimal)

lemma Math_min_20_decimal: "Math_min (to_number 1 (int n)) (Num 20) = Num (int (min n 20))"
  by (auto simp: to_number_def)

lemma Math_min_20_bound:
  "Math_min x (Num 20) \<noteq> Large \<and> (\<forall>n. Math_min x (Num 20) = Num n \<longrightarrow> n \<le> 20)"
  by (cases x) (auto split: if_splits)

text \<open>Once every promise has settled, in whatever order, the slots hold the values by position.\<close>

lemma Promise_all_complete:
  assumes "set ord = {0..<length ps}"
  shows "Promise_all ord ps = Some ps"
proof -
  let ?r = "fold (resolve_element ps) ord (replicate (length ps) None)"
  have "?r = map Some ps"
  proof (rule nth_equalityI)
    show "length ?r = length (map Some ps)"
      by (simp add: length_fold_resolve)
  next
    fix i assume "i < length ?r"
    then have i: "i < length ps" by (simp add: length_fold_resolve)
    then have "i \<in> set ord" using assms by simp
    then show "?r ! i = map Some ps ! i"
      using i by (simp add: nth_fold_resolve)
  qed
  then show ?thesis by (simp add: Promise_all_def those_map_Some)
qed

lemma Promise_all_settle: "Promise_all (settle_order lat (length ps)) ps = Some ps"
  by (rule Promise_all_complete) (simp add: settle_order_def)

lemma survivors_in_listing_order:
  "map the (filter (\<lambda>email. email \<noteq> None) (map (email_promise env token) msgs)) =
   map (\<lambda>msg. projr (process_email env token msg))
       (filter (\<lambda>msg. \<not> isl (process_email env token msg)) msgs)"
  by (induction msgs) (auto simp: email_promise_def split: sum.splits)

lemma survivors_count:
  "length (filter (\<lambda>email. email \<noteq> None) (map (email_promise env token) msgs)) + 
   thrown_count env token msgs = length msgs"
  by (induction msgs) (auto simp: email_promise_def thrown_count_def split: sum.splits)

text \<open>The paths through the handler, one lemma each.\<close>

lemma GET_no_session:
  assumes "getServerSession env = Inr None"
  shows "GET env request =
    Some \<lparr>status = 401, body = [(''error'', JString ''Not authenticated'')]\<rparr>"
  using assms by (simp add: GET_def try_block_def NextResponse_json_def)

lemma GET_no_token:
  assumes "getServerSession env = Inr (Some session)"
    and "accessToken session = None \<or> accessToken session = Some []"
  shows "GET env request =
    Some \<lparr>status = 401,
          body = [(''error'', JString ''No access token available. Please sign in again.'')]\<rparr>"
  using assms by (auto simp: GET_def try_block_def NextResponse_json_def)

lemma GET_listing_throws:
  assumes "getServerSession env = Inr (Some session)"
    and "accessToken session = Some token" and "token \<noteq> []"
    and "fetchGmailMessages env token (maxResults request) = Inl e"
  shows "GET env request = catch_block env e"
  using assms by (simp add: GET_def try_block_def)

lemma GET_session_throws:
  assumes "getServerSession env = Inl e"
  shows "GET env request = catch_block env e"
  using assms by (simp add: GET_def try_block_def)

lemma GET_empty_listing:
  assumes "getServerSession env = Inr (Some session)"
    and "accessToken session = Some token" and "token \<noteq> []"
    and "fetchGmailMessages env token (maxResults request) = Inr messagesResponse"
    and "messages messagesResponse = None \<or> messages messagesResponse = Some []"
  shows "GET env request =
    Some \<lparr>status = 200,
          body = [(''emails'', JArray []),
                  (''message'', JString ''No emails found in your inbox.''),
                  (''totalFetched'', JNumber 0),
                  (''timestamp'', JString (now env))]\<rparr>"
  using assms by (auto simp: GET_def try_block_def NextResponse_json_def)

lemma GET_fan_out:
  assumes "getServerSession env = Inr (Some session)"
    and "accessToken session = Some token" and "token \<noteq> []"
    and "fetchGmailMessages env token (maxResults request) = Inr messagesResponse"
    and "messages messagesResponse = Some msgs" and "msgs \<noteq> []"
  shows "GET env request = Some (success_envelope env (map (email_promise env token) msgs))"
  using assms Promise_all_settle [of "latency env" "map (email_promise env token) msgs"]
  by (simp add: GET_def try_block_def)

subsection \<open>The fan-out drops what fails\<close>

text \<open>
  Claim C1. The session carries a token and the listing returns \<open>N\<close> message references,
  of which \<open>K\<close> have a fetch-and-analyze operation that throws. Then \<open>K \<le> N\<close>, the
  handler responds, with status 200, and both the length of \<^verbatim>\<open>emails\<close> and
  \<^verbatim>\<open>totalFetched\<close> are \<open>N - K\<close>: a failing message never fails the request.
\<close>

theorem partial_failure_is_dropped:
  assumes "getServerSession env = Inr (Some session)"
    and "accessToken session = Some token" and "token \<noteq> []"
    and "fetchGmailMessages env token (maxResults request) = Inr messagesResponse"
    and "messages messagesResponse = Some msgs"
  shows "thrown_count env token msgs \<le> length msgs \<and>
    (\<exists>response emails.
       GET env request = Some response \<and> status response = 200 \<and>
       map_of (body response) ''emails'' = Some (JArray emails) \<and>
       length emails = length msgs - thrown_count env token msgs \<and>
       map_of (body response) ''totalFetched'' =
         Some (JNumber (length msgs - thrown_count env token msgs)))"
proof (cases "msgs = []")
  case True
  then have "messages messagesResponse = None \<or> messages messagesResponse = Some []"
    using assms(5) by simp
  from GET_empty_listing [OF assms(1-4) this] True show ?thesis
    by (simp add: thrown_count_def)
next
  case False
  let ?kept = "filter (\<lambda>email. email \<noteq> None) (map (email_promise env token) msgs)"
  have count: "length ?kept + thrown_count env token msgs = length msgs"
    by (rule survivors_count)
  then have n: "length ?kept = length msgs - thrown_count env token msgs"
    and le: "thrown_count env token msgs \<le> length msgs"
    by arith+
  have "GET env request = Some (success_envelope env (map (email_promise env token) msgs))"
    by (rule GET_fan_out [OF assms False])
  then show ?thesis
    using n le by (simp add: success_envelope_def NextResponse_json_def Let_def)
qed

theorem partial_failure_is_dropped_witness:
  "thrown_count inbox_env ''ya29.a0'' inbox_messages = 1 \<and> length inbox_messages = 3 \<and>
   (\<exists>response emails.
       GET inbox_env \<lparr>searchParams = []\<rparr> = Some response \<and> status response = 200 \<and>
       map_of (body response) ''emails'' = Some (JArray emails) \<and>
       length emails = 2 \<and>
       map_of (body response) ''totalFetched'' = Some (JNumber 2))"
proof -
  have k: "thrown_count inbox_env ''ya29.a0'' inbox_messages = 1"
    by (simp add: thrown_count_def inbox_env_def inbox_messages_def process_email_def)
  have n: "length inbox_messages = 3"
    by (simp add: inbox_messages_def)
  have h1: "getServerSession inbox_env = Inr (Some inbox_session)"
    by (simp add: inbox_env_def)
  have h2: "accessToken inbox_session = Some ''ya29.a0''"
    by (simp add: inbox_session_def)
  have h3: "''ya29.a0'' \<noteq> []" by simp
  have h4: "fetchGmailMessages inbox_env ''ya29.a0'' (maxResults \<lparr>searchParams = []\<rparr>) =
      Inr \<lparr>messages = Some inbox_messages\<rparr>"
    by (simp add: inbox_env_def)
  have h5: "messages \<lparr>messages = Some inbox_messages\<rparr> = Some inbox_messages" by simp
  show ?thesis
    using partial_failure_is_dropped [OF h1 h2 h3 h4 h5] k n by simp
qed

subsection \<open>The limit of the listing\<close>

text \<open>
  A request for \<^verbatim>\<open>maxResults=0\<close> does not fall back to the default of 10: the string
  \<^verbatim>\<open>"0"\<close> is truthy, so it is parsed, and the limit is 0.
\<close>

theorem maxResults_zero_counterexample:
  "maxResults \<lparr>searchParams = [(''maxResults'', ''0'')]\<rparr> \<noteq> Num 10"
  by (simp add: maxResults_def searchParams_get_def parseInt_def is_white_space_def
      parse_digits_def radix_digit_def digit_value_def digits_value_def to_number_def)

text \<open>
  Claim C2, as amended. Whatever the parameter is, the limit handed to the listing call is
  never a number above 20. When the parameter is the decimal numeral of a natural number
  \<open>n\<close>, the limit is the smaller of \<open>n\<close> and 20: asking for 1000 gives 20, asking for 0
  gives 0. A parameter that is missing or empty gives the default, 10.
\<close>

theorem maxResults_clamped:
  "(maxResults request \<noteq> Large \<and> (\<forall>m. maxResults request = Num m \<longrightarrow> m \<le> 20)) \<and>
   (searchParams_get request ''maxResults'' = Some (decimal n) \<longrightarrow>
      maxResults request = Num (int (min n 20))) \<and>
   maxResults \<lparr>searchParams = [(''maxResults'', ''1000'')]\<rparr> = Num 20 \<and>
   maxResults \<lparr>searchParams = [(''maxResults'', ''0'')]\<rparr> = Num 0 \<and>
   (searchParams_get request ''maxResults'' = None \<or>
    searchParams_get request ''maxResults'' = Some [] \<longrightarrow> maxResults request = Num 10)"
proof (intro conjI impI)
  show "maxResults request \<noteq> Large"
    using Math_min_20_bound by (simp add: maxResults_def)
next
  show "\<forall>m. maxResults request = Num m \<longrightarrow> m \<le> 20"
    using Math_min_20_bound by (simp add: maxResults_def)
next
  assume "searchParams_get request ''maxResults'' = Some (decimal n)"
  then show "maxResults request = Num (int (min n 20))"
    by (simp add: maxResults_def decimal_not_Nil parseInt_decimal Math_min_20_decimal)
next
  show "maxResults \<lparr>searchParams = [(''maxResults'', ''1000'')]\<rparr> = Num 20"
    by (simp add: maxResults_def searchParams_get_def parseInt_def is_white_space_def
        parse_digits_def radix_digit_def digit_value_def digits_value_def to_number_def)
next
  show "maxResults \<lparr>searchParams = [(''maxResults'', ''0'')]\<rparr> = Num 0"
    by (simp add: maxResults_def searchParams_get_def parseInt_def is_white_space_def
        parse_digits_def radix_digit_def digit_value_def digits_value_def to_number_def)
next
  have ten: "parseInt ''10'' = Num 10"
    by (simp add: parseInt_def is_white_space_def
        parse_digits_def radix_digit_def digit_value_def digits_value_def to_number_def)
  assume "searchParams_get request ''maxResults'' = None \<or>
    searchParams_get request ''maxResults'' = Some []"
  then show "maxResults request = Num 10"
    using ten by (auto simp: maxResults_def)
qed

theorem maxResults_clamped_witness:
  "maxResults \<lparr>searchParams = [(''maxResults'', ''25'')]\<rparr> = Num 20 \<and>
   decimal 7 = ''7'' \<and>
   maxResults \<lparr>searchParams = [(''maxResults'', ''7'')]\<rparr> = Num 7 \<and>
   searchParams_get \<lparr>searchParams = [(''page'', ''2'')]\<rparr> ''maxResults'' = None \<and>
   maxResults \<lparr>searchParams = [(''page'', ''2'')]\<rparr> = Num 10"
proof -
  have d25: "decimal 25 = ''25''"
    by code_simp
  have d7: "decimal 7 = ''7''"
    by code_simp
  have h25: "searchParams_get \<lparr>searchParams = [(''maxResults'', ''25'')]\<rparr> ''maxResults'' =
      Some (decimal 25)"
    by (simp add: searchParams_get_def d25)
  have h7: "searchParams_get \<lparr>searchParams = [(''maxResults'', ''7'')]\<rparr> ''maxResults'' =
      Some (decimal 7)"
    by (simp add: searchParams_get_def d7)
  have h: "searchParams_get \<lparr>searchParams = [(''page'', ''2'')]\<rparr> ''maxResults'' = None"
    by (simp add: searchParams_get_def)
  show ?thesis
    using h25 h7 h d7
      maxResults_clamped [of "\<lparr>searchParams = [(''maxResults'', ''25'')]\<rparr>" 25]
      maxResults_clamped [of "\<lparr>searchParams = [(''maxResults'', ''7'')]\<rparr>" 7]
      maxResults_clamped [of "\<lparr>searchParams = [(''page'', ''2'')]\<rparr>" 0]
    by simp
qed

subsection \<open>Classification of what the listing throws\<close>

text \<open>
  Claim C3. The listing throws an \<^verbatim>\<open>Error\<close> whose message contains \<^verbatim>\<open>5\<close> and none of
  \<^verbatim>\<open>401\<close>, \<^verbatim>\<open>403\<close>, \<^verbatim>\<open>429\<close>, \<^verbatim>\<open>400\<close>: the handler answers with status 503 and code
  \<^verbatim>\<open>SERVER_ERROR\<close>. The digit alone is enough.
\<close>

theorem bare_five_is_server_error:
  assumes "getServerSession env = Inr (Some session)"
    and "accessToken session = Some token" and "token \<noteq> []"
    and "fetchGmailMessages env token (maxResults request) = Inl (Error msg)"
    and "str_includes msg ''5''"
    and "\<not> str_includes msg ''401''" and "\<not> str_includes msg ''403''"
    and "\<not> str_includes msg ''429''" and "\<not> str_includes msg ''400''"
  shows "GET env request =
    Some \<lparr>status = 503,
          body = [(''error'', JString ''Gmail API server error. Please try again in a few minutes.''),
                  (''code'', JString ''SERVER_ERROR''),
                  (''timestamp'', JString (now env))]\<rparr>"
  using GET_listing_throws [OF assms(1-4)] assms(5-9)
  by (simp add: catch_block_def NextResponse_json_def)

theorem bare_five_is_server_error_witness:
  "GET (failing_listing (Error ''quota of 25 requests exceeded'')) \<lparr>searchParams = []\<rparr> =
    Some \<lparr>status = 503,
          body = [(''error'', JString ''Gmail API server error. Please try again in a few minutes.''),
                  (''code'', JString ''SERVER_ERROR''),
                  (''timestamp'', JString ''2024-01-01T00:00:00.000Z'')]\<rparr>"
proof -
  let ?env = "failing_listing (Error ''quota of 25 requests exceeded'')"
  have h1: "getServerSession ?env = Inr (Some inbox_session)"
    by (simp add: failing_listing_def inbox_env_def)
  have h2: "accessToken inbox_session = Some ''ya29.a0''"
    by (simp add: inbox_session_def)
  have h3: "''ya29.a0'' \<noteq> []" by simp
  have h4: "fetchGmailMessages ?env ''ya29.a0'' (maxResults \<lparr>searchParams = []\<rparr>) =
      Inl (Error ''quota of 25 requests exceeded'')"
    by (simp add: failing_listing_def)
  have h5: "str_includes ''quota of 25 requests exceeded'' ''5''" by simp
  have h6: "\<not> str_includes ''quota of 25 requests exceeded'' ''401''" by simp
  have h7: "\<not> str_includes ''quota of 25 requests exceeded'' ''403''" by simp
  have h8: "\<not> str_includes ''quota of 25 requests exceeded'' ''429''" by simp
  have h9: "\<not> str_includes ''quota of 25 requests exceeded'' ''400''" by simp
  have t: "now ?env = ''2024-01-01T00:00:00.000Z''"
    by (simp add: failing_listing_def inbox_env_def)
  show ?thesis
    using bare_five_is_server_error [OF h1 h2 h3 h4 h5 h6 h7 h8 h9] t by simp
qed

text \<open>
  Claim C4. The listing throws an \<^verbatim>\<open>Error\<close> whose message contains both \<^verbatim>\<open>401\<close> and
  \<^verbatim>\<open>403\<close>: the first test of the chain decides, the handler answers with status 401
  and code \<^verbatim>\<open>TOKEN_EXPIRED\<close>.
\<close>

theorem token_expired_wins_over_permission_denied:
  assumes "getServerSession env = Inr (Some session)"
    and "accessToken session = Some token" and "token \<noteq> []"
    and "fetchGmailMessages env token (maxResults request) = Inl (Error msg)"
    and "str_includes msg ''401''" and "str_includes msg ''403''"
  shows "GET env request =
    Some \<lparr>status = 401,
          body = [(''error'', JString ''Gmail access token expired. Please sign out and sign in again.''),
                  (''code'', JString ''TOKEN_EXPIRED''),
                  (''details'', JString ''Your authentication token is no longer valid.''),
                  (''timestamp'', JString (now env))]\<rparr>"
  using GET_listing_throws [OF assms(1-4)] assms(5)
  by (simp add: catch_block_def NextResponse_json_def)

theorem token_expired_wins_over_permission_denied_witness:
  "GET (failing_listing (Error ''403 Forbidden (after a 401 retry)'')) \<lparr>searchParams = []\<rparr> =
    Some \<lparr>status = 401,
          body = [(''error'', JString ''Gmail access token expired. Please sign out and sign in again.''),
                  (''code'', JString ''TOKEN_EXPIRED''),
                  (''details'', JString ''Your authentication token is no longer valid.''),
                  (''timestamp'', JString ''2024-01-01T00:00:00.000Z'')]\<rparr>"
proof -
  let ?env = "failing_listing (Error ''403 Forbidden (after a 401 retry)'')"
  have h1: "getServerSession ?env = Inr (Some inbox_session)"
    by (simp add: failing_listing_def inbox_env_def)
  have h2: "accessToken inbox_session = Some ''ya29.a0''"
    by (simp add: inbox_session_def)
  have h3: "''ya29.a0'' \<noteq> []" by simp
  have h4: "fetchGmailMessages ?env ''ya29.a0'' (maxResults \<lparr>searchParams = []\<rparr>) =
      Inl (Error ''403 Forbidden (after a 401 retry)'')"
    by (simp add: failing_listing_def)
  have h5: "str_includes ''403 Forbidden (after a 401 retry)'' ''401''" by simp
  have h6: "str_includes ''403 Forbidden (after a 401 retry)'' ''403''" by simp
  have t: "now ?env = ''2024-01-01T00:00:00.000Z''"
    by (simp add: failing_listing_def inbox_env_def)
  show ?thesis
    using token_expired_wins_over_permission_denied [OF h1 h2 h3 h4 h5 h6] t by simp
qed

subsection \<open>Order of the surviving results\<close>

text \<open>
  Claim C5. Whatever the settling times of the promises of the fan-out are, \<^verbatim>\<open>emails\<close>
  holds the analyses of the messages whose operation did not throw, in the order in
  which the listing gave these messages.
\<close>

theorem emails_in_listing_order:
  assumes "getServerSession env = Inr (Some session)"
    and "accessToken session = Some token" and "token \<noteq> []"
    and "fetchGmailMessages env token (maxResults request) = Inr messagesResponse"
    and "messages messagesResponse = Some msgs"
  shows "\<exists>response.
       GET (env\<lparr>latency := lat\<rparr>) request = Some response \<and>
       map_of (body response) ''emails'' =
         Some (JArray (map (\<lambda>msg. projr (process_email env token msg))
                 (filter (\<lambda>msg. \<not> isl (process_email env token msg)) msgs)))"
proof -
  let ?env = "env\<lparr>latency := lat\<rparr>"
  have same: "process_email ?env token = process_email env token"
    by (rule ext) (simp add: process_email_def split: sum.splits)
  have h1: "getServerSession ?env = Inr (Some session)" using assms(1) by simp
  have h4: "fetchGmailMessages ?env token (maxResults request) = Inr messagesResponse"
    using assms(4) by simp
  show ?thesis
  proof (cases "msgs = []")
    case True
    then have "messages messagesResponse = None \<or> messages messagesResponse = Some []"
      using assms(5) by simp
    from GET_empty_listing [OF h1 assms(2,3) h4 this] True show ?thesis
      by simp
  next
    case False
    have "GET ?env request =
        Some (success_envelope ?env (map (email_promise ?env token) msgs))"
      by (rule GET_fan_out [OF h1 assms(2,3) h4 assms(5) False])
    then show ?thesis
      using survivors_in_listing_order [of ?env token msgs]
      by (simp add: success_envelope_def NextResponse_json_def Let_def same)
  qed
qed

theorem emails_in_listing_order_witness:
  "settle_order (\<lambda>i. 10 - i) 3 = [2, 1, 0] \<and>
   (\<exists>response.
       GET (inbox_env\<lparr>latency := (\<lambda>i. 10 - i)\<rparr>) \<lparr>searchParams = []\<rparr> = Some response \<and>
       map_of (body response) ''emails'' = Some (JArray [''Re: m1'', ''Re: m3'']))"
proof -
  have ord: "settle_order (\<lambda>i. 10 - i) 3 = [2, 1, 0]"
    by (simp add: settle_order_def upt_rec numeral_3_eq_3)
  have h1: "getServerSession inbox_env = Inr (Some inbox_session)"
    by (simp add: inbox_env_def)
  have h2: "accessToken inbox_session = Some ''ya29.a0''"
    by (simp add: inbox_session_def)
  have h3: "''ya29.a0'' \<noteq> []" by simp
  have h4: "fetchGmailMessages inbox_env ''ya29.a0'' (maxResults \<lparr>searchParams = []\<rparr>) =
      Inr \<lparr>messages = Some inbox_messages\<rparr>"
    by (simp add: inbox_env_def)
  have h5: "messages \<lparr>messages = Some inbox_messages\<rparr> = Some inbox_messages" by simp
  have survivors:
    "map (\<lambda>msg. projr (process_email inbox_env ''ya29.a0'' msg))
       (filter (\<lambda>msg. \<not> isl (process_email inbox_env ''ya29.a0'' msg)) inbox_messages) =
     [''Re: m1'', ''Re: m3'']"
    by (simp add: inbox_env_def inbox_messages_def process_email_def)
  show ?thesis
    using emails_in_listing_order [OF h1 h2 h3 h4 h5, of "\<lambda>i. 10 - i"] ord survivors
    by simp
qed

subsection \<open>An empty inbox\<close>

text \<open>
  Claim C6. The listing returns no \<^verbatim>\<open>messages\<close> property or an empty list: the handler
  answers with status 200, \<^verbatim>\<open>emails = []\<close>, \<^verbatim>\<open>totalFetched = 0\<close> and a \<^verbatim>\<open>message\<close>
  that explains it.
\<close>

theorem empty_listing_succeeds:
  assumes "getServerSession env = Inr (Some session)"
    and "accessToken session = Some token" and "token \<noteq> []"
    and "fetchGmailMessages env token (maxResults request) = Inr messagesResponse"
    and "messages messagesResponse = None \<or> messages messagesResponse = Some []"
  shows "GET env request =
    Some \<lparr>status = 200,
          body = [(''emails'', JArray []),
                  (''message'', JString ''No emails found in your inbox.''),
                  (''totalFetched'', JNumber 0),
                  (''timestamp'', JString (now env))]\<rparr>"
  by (rule GET_empty_listing [OF assms])

theorem empty_listing_succeeds_witness:
  "GET (inbox_env\<lparr>fetchGmailMessages := (\<lambda>token limit. Inr \<lparr>messages = None\<rparr>)\<rparr>)
       \<lparr>searchParams = []\<rparr> =
    Some \<lparr>status = 200,
          body = [(''emails'', JArray []),
                  (''message'', JString ''No emails found in your inbox.''),
                  (''totalFetched'', JNumber 0),
                  (''timestamp'', JString ''2024-01-01T00:00:00.000Z'')]\<rparr>"
proof -
  let ?env = "inbox_env\<lparr>fetchGmailMessages := (\<lambda>token limit. Inr \<lparr>messages = None\<rparr>)\<rparr>"
  have h1: "getServerSession ?env = Inr (Some inbox_session)"
    by (simp add: inbox_env_def)
  have h2: "accessToken inbox_session = Some ''ya29.a0''"
    by (simp add: inbox_session_def)
  have h3: "''ya29.a0'' \<noteq> []" by simp
  have h4: "fetchGmailMessages ?env ''ya29.a0'' (maxResults \<lparr>searchParams = []\<rparr>) =
      Inr \<lparr>messages = None\<rparr>"
    by simp
  have h5: "messages \<lparr>messages = None\<rparr> = None \<or> messages \<lparr>messages = None\<rparr> = Some []"
    by simp
  have t: "now ?env = ''2024-01-01T00:00:00.000Z''"
    by (simp add: inbox_env_def)
  show ?thesis
    using empty_listing_succeeds [OF h1 h2 h3 h4 h5] t by simp
qed

subsection \<open>Permission denied\<close>

text \<open>
  Claim C7. The listing throws an \<^verbatim>\<open>Error\<close> whose message contains \<^verbatim>\<open>403\<close> and not
  \<^verbatim>\<open>401\<close>: the handler answers with status 403 and code \<^verbatim>\<open>PERMISSION_DENIED\<close>.
\<close>

theorem forbidden_is_permission_denied:
  assumes "getServerSession env = Inr (Some session)"
    and "accessToken session = Some token" and "token \<noteq> []"
    and "fetchGmailMessages env token (maxResults request) = Inl (Error msg)"
    and "str_includes msg ''403''" and "\<not> str_includes msg ''401''"
  shows "\<exists>response.
    GET env request = Some response \<and> status response = 403 \<and>
    map_of (body response) ''code'' = Some (JString ''PERMISSION_DENIED'')"
  using GET_listing_throws [OF assms(1-4)] assms(5,6)
  by (simp add: catch_block_def NextResponse_json_def)

theorem forbidden_is_permission_denied_witness:
  "\<exists>response.
    GET (failing_listing (Error ''Gmail API error: 403 Forbidden'')) \<lparr>searchParams = []\<rparr> =
      Some response \<and> status response = 403 \<and>
    map_of (body response) ''code'' = Some (JString ''PERMISSION_DENIED'')"
proof -
  let ?env = "failing_listing (Error ''Gmail API error: 403 Forbidden'')"
  have h1: "getServerSession ?env = Inr (Some inbox_session)"
    by (simp add: failing_listing_def inbox_env_def)
  have h2: "accessToken inbox_session = Some ''ya29.a0''"
    by (simp add: inbox_session_def)
  have h3: "''ya29.a0'' \<noteq> []" by simp
  have h4: "fetchGmailMessages ?env ''ya29.a0'' (maxResults \<lparr>searchParams = []\<rparr>) =
      Inl (Error ''Gmail API error: 403 Forbidden'')"
    by (simp add: failing_listing_def)
  have h5: "str_includes ''Gmail API error: 403 Forbidden'' ''403''" by simp
  have h6: "\<not> str_includes ''Gmail API error: 403 Forbidden'' ''401''" by simp
  show ?thesis
    using forbidden_is_permission_denied [OF h1 h2 h3 h4 h5 h6] by simp
qed

subsection \<open>The two authentication checks\<close>

text \<open>
  Claim C8. Session resolution returns \<^verbatim>\<open>null\<close>: the handler answers with status 401
  and a body that has an \<^verbatim>\<open>error\<close> property and no \<^verbatim>\<open>code\<close> property.
\<close>

theorem no_session_is_unauthenticated:
  assumes "getServerSession env = Inr None"
  shows "\<exists>response.
    GET env request = Some response \<and> status response = 401 \<and>
    map_of (body response) ''error'' = Some (JString ''Not authenticated'') \<and>
    map_of (body response) ''code'' = None"
  using GET_no_session [OF assms] by simp

theorem no_session_is_unauthenticated_witness:
  "\<exists>response.
    GET (inbox_env\<lparr>getServerSession := Inr None\<rparr>) \<lparr>searchParams = []\<rparr> = Some response \<and>
    status response = 401 \<and>
    map_of (body response) ''error'' = Some (JString ''Not authenticated'') \<and>
    map_of (body response) ''code'' = None"
proof -
  have h: "getServerSession (inbox_env\<lparr>getServerSession := Inr None\<rparr>) = Inr None"
    by simp
  show ?thesis
    by (rule no_session_is_unauthenticated [OF h])
qed

text \<open>
  Claim C9. The session is there, its access token is missing or empty: the handler
  answers with status 401 and a body with no \<^verbatim>\<open>code\<close> property, whose \<^verbatim>\<open>error\<close> text
  differs from the one any request without a session gets.
\<close>

theorem missing_token_is_rejected:
  assumes "getServerSession env = Inr (Some session)"
    and "accessToken session = None \<or> accessToken session = Some []"
    and "getServerSession env' = Inr None"
  shows "\<exists>response response' message message'.
    GET env request = Some response \<and> status response = 401 \<and>
    map_of (body response) ''code'' = None \<and>
    map_of (body response) ''error'' = Some (JString message) \<and>
    GET env' request' = Some response' \<and>
    map_of (body response') ''error'' = Some (JString message') \<and>
    message \<noteq> message'"
  using GET_no_token [OF assms(1,2), of request] GET_no_session [OF assms(3), of request']
  by simp

theorem missing_token_is_rejected_witness:
  "\<exists>response response' message message'.
    GET (inbox_env\<lparr>getServerSession := Inr (Some (inbox_session\<lparr>accessToken := Some []\<rparr>))\<rparr>)
        \<lparr>searchParams = []\<rparr> = Some response \<and>
    status response = 401 \<and>
    map_of (body response) ''code'' = None \<and>
    map_of (body response) ''error'' = Some (JString message) \<and>
    GET (inbox_env\<lparr>getServerSession := Inr None\<rparr>) \<lparr>searchParams = []\<rparr> = Some response' \<and>
    map_of (body response') ''error'' = Some (JString message') \<and>
    message \<noteq> message'"
proof -
  let ?s = "inbox_session\<lparr>accessToken := Some []\<rparr>"
  have h1: "getServerSession (inbox_env\<lparr>getServerSession := Inr (Some ?s)\<rparr>) = Inr (Some ?s)"
    by simp
  have h2: "accessToken ?s = None \<or> accessToken ?s = Some []"
    by simp
  have h3: "getServerSession (inbox_env\<lparr>getServerSession := Inr None\<rparr>) = Inr None"
    by simp
  show ?thesis
    by (rule missing_token_is_rejected [OF h1 h2 h3])
qed

subsection \<open>Thrown values that are not errors\<close>

text \<open>
  The listing throws an object without a prototype. The \<^verbatim>\<open>catch\<close> block reaches
  \<^verbatim>\<open>String(error)\<close> at line 187, the conversion throws, and the handler gives no
  response at all.
\<close>

theorem string_conversion_throws_counterexample:
  "fetchGmailMessages bare_throw_env ''ya29.a0'' (maxResults \<lparr>searchParams = []\<rparr>) =
     Inl (NonError Bare_object) \<and>
   GET bare_throw_env \<lparr>searchParams = []\<rparr> = None"
  by (simp add: GET_def try_block_def catch_block_def unknown_error_def
      bare_throw_env_def inbox_session_def)

text \<open>
  Claim C10, as amended. Session resolution or the listing throws a value that is not an
  instance of \<^verbatim>\<open>Error\<close>, and \<^verbatim>\<open>String\<close> converts that value to a text: no substring
  is tested, the handler answers with status 500, code \<^verbatim>\<open>UNKNOWN_ERROR\<close> and that text
  as \<^verbatim>\<open>details\<close>.
\<close>

theorem non_error_is_unknown_error:
  assumes "getServerSession env = Inl (NonError v) \<or>
      (\<exists>session token.
         getServerSession env = Inr (Some session) \<and>
         accessToken session = Some token \<and> token \<noteq> [] \<and>
         fetchGmailMessages env token (maxResults request) = Inl (NonError v))"
    and "String_of env v = Some text"
  shows "GET env request =
    Some \<lparr>status = 500,
          body = [(''error'', JString ''Failed to fetch emails from Gmail API''),
                  (''code'', JString ''UNKNOWN_ERROR''),
                  (''details'', JString text),
                  (''timestamp'', JString (now env))]\<rparr>"
proof -
  have "GET env request = catch_block env (NonError v)"
    using assms(1) GET_session_throws GET_listing_throws by blast
  then show ?thesis
    using assms(2) by (simp add: catch_block_def unknown_error_def NextResponse_json_def)
qed

theorem non_error_is_unknown_error_witness:
  "GET (failing_listing (NonError ''401 Unauthorized'')) \<lparr>searchParams = []\<rparr> =
    Some \<lparr>status = 500,
          body = [(''error'', JString ''Failed to fetch emails from Gmail API''),
                  (''code'', JString ''UNKNOWN_ERROR''),
                  (''details'', JString ''401 Unauthorized''),
                  (''timestamp'', JString ''2024-01-01T00:00:00.000Z'')]\<rparr>"
proof -
  let ?env = "failing_listing (NonError ''401 Unauthorized'')"
  have h1: "getServerSession ?env = Inl (NonError ''401 Unauthorized'') \<or>
      (\<exists>session token.
         getServerSession ?env = Inr (Some session) \<and>
         accessToken session = Some token \<and> token \<noteq> [] \<and>
         fetchGmailMessages ?env token (maxResults \<lparr>searchParams = []\<rparr>) =
           Inl (NonError ''401 Unauthorized''))"
    by (simp add: failing_listing_def inbox_env_def inbox_session_def)
  have h2: "String_of ?env ''401 Unauthorized'' = Some ''401 Unauthorized''"
    by (simp add: failing_listing_def inbox_env_def)
  have t: "now ?env = ''2024-01-01T00:00:00.000Z''"
    by (simp add: failing_listing_def inbox_env_def)
  show ?thesis
    using non_error_is_unknown_error [OF h1 h2] t by simp
qed

end
